theory Spec2Isabelle
  imports Complex_Main "HOL-Library.Log_Nat"
begin

section \<open>Python floats\<close>

text \<open>
  A Python \<open>float\<close> is an IEEE 754 binary64 value. A finite one is modelled by the rational
  number it denotes, next to the two infinities and NaN. The sign of zero is not modelled:
  the program multiplies, compares and rounds, and none of these tells \<open>-0.0\<close> from
  \<open>0.0\<close> other than by the sign of a zero result.
\<close>

datatype pyfloat = Fin rat | PInf | NInf | NaN

text \<open>Rounding a rational to the nearest integer, ties to the even one.\<close>

definition rhe :: "rat \<Rightarrow> int" where
  "rhe x = (let f = \<lfloor>x\<rfloor>; d = x - of_int f
            in if d < 1 / 2 then f else if 1 / 2 < d then f + 1
               else if even f then f else f + 1)"

text \<open>The binary exponent of a positive rational: \<open>2 powi ilog2 x \<le> x < 2 powi (ilog2 x + 1)\<close>.\<close>

definition ilog2 :: "rat \<Rightarrow> int" where
  "ilog2 x = (if 1 \<le> x then bitlen \<lfloor>x\<rfloor> - 1 else - bitlen (\<lceil>1 / x\<rceil> - 1))"

text \<open>
  The spacing of binary64 values around \<open>x\<close>: 53 significant bits, and the fixed spacing
  \<open>2 powi (- 1074)\<close> of the subnormal range below \<open>2 powi (- 1022)\<close>.
\<close>

definition binade :: "rat \<Rightarrow> int" where
  "binade x = max (ilog2 \<bar>x\<bar>) (- 1022)"

definition quantum :: "rat \<Rightarrow> rat" where
  "quantum x = 2 powi (binade x - 52)"

definition rnd :: "rat \<Rightarrow> rat" where
  "rnd x = (if x = 0 then 0 else of_int (rhe (x / quantum x)) * quantum x)"

text \<open>Round to nearest, ties to even, overflowing to an infinity: the result of every
  correctly rounded binary64 operation whose exact result is the rational \<open>x\<close>.\<close>

definition fl :: "rat \<Rightarrow> pyfloat" where
  "fl x = (let r = rnd x
           in if 2 ^ 1024 \<le> r then PInf else if r \<le> - (2 ^ 1024) then NInf else Fin r)"

fun fsgn :: "pyfloat \<Rightarrow> int" where
  "fsgn (Fin x) = (if x < 0 then - 1 else if 0 < x then 1 else 0)"
| "fsgn PInf = 1"
| "fsgn NInf = - 1"
| "fsgn NaN = 0"

text \<open>\<open>a * b\<close> on floats.\<close>

fun fmul :: "pyfloat \<Rightarrow> pyfloat \<Rightarrow> pyfloat" where
  "fmul (Fin x) (Fin y) = fl (x * y)"
| "fmul NaN b = NaN"
| "fmul a NaN = NaN"
| "fmul a b = (let s = fsgn a * fsgn b in if s = 0 then NaN else if 0 < s then PInf else NInf)"

text \<open>\<open>a < b\<close> and \<open>a <= b\<close> on floats: false as soon as one side is NaN.\<close>

fun flt :: "pyfloat \<Rightarrow> pyfloat \<Rightarrow> bool" where
  "flt NaN b = False"
| "flt a NaN = False"
| "flt (Fin x) (Fin y) = (x < y)"
| "flt a NInf = False"
| "flt PInf b = False"
| "flt NInf b = True"
| "flt a PInf = True"

fun fle :: "pyfloat \<Rightarrow> pyfloat \<Rightarrow> bool" where
  "fle NaN b = False"
| "fle a NaN = False"
| "fle (Fin x) (Fin y) = (x \<le> y)"
| "fle NInf b = True"
| "fle a PInf = True"
| "fle a NInf = False"
| "fle PInf b = False"

text \<open>The builtins \<open>max(a, b)\<close> and \<open>min(a, b)\<close>: the first argument is kept unless the
  second is strictly greater (smaller).\<close>

definition pymax :: "pyfloat \<Rightarrow> pyfloat \<Rightarrow> pyfloat" where
  "pymax a b = (if flt a b then b else a)"

definition pymin :: "pyfloat \<Rightarrow> pyfloat \<Rightarrow> pyfloat" where
  "pymin a b = (if flt b a then b else a)"

text \<open>
  \<open>round(x, 2)\<close>: infinities and NaN round to themselves; a finite value is rounded as a
  decimal, correctly (ties of the exact binary value to the even digit), and the decimal is
  converted back to the nearest float.
\<close>

fun round2 :: "pyfloat \<Rightarrow> pyfloat" where
  "round2 (Fin x) = fl (of_int (rhe (x * 100)) / 100)"
| "round2 a = a"

section \<open>The price adjustment\<close>

text \<open>The literals \<open>1.1\<close> and \<open>0.9\<close> denote the floats nearest to them.\<close>

definition lit_1_1 :: pyfloat where
  "lit_1_1 = fl (11 / 10)"

definition lit_0_9 :: pyfloat where
  "lit_0_9 = fl (9 / 10)"

text \<open>The dictionary returned by \<open>get_market_data\<close>.\<close>

record market_data =
  demand :: pyfloat
  competitor_price :: pyfloat
  trend :: string

text \<open>\<open>adjust_price\<close>, up to the trend adjustment: the value of \<open>new_price\<close> before the
  statement that keeps it within the competitor range.\<close>

definition trend_price :: "pyfloat \<Rightarrow> market_data \<Rightarrow> pyfloat" where
  "trend_price current_price md =
     (let new_price = fmul current_price (demand md)
      in if trend md = ''rising'' then fmul new_price lit_1_1
         else if trend md = ''falling'' then fmul new_price lit_0_9
         else new_price)"

definition lower_bound :: "market_data \<Rightarrow> pyfloat" where
  "lower_bound md = fmul (competitor_price md) lit_0_9"

definition upper_bound :: "market_data \<Rightarrow> pyfloat" where
  "upper_bound md = fmul (competitor_price md) lit_1_1"

text \<open>The value of \<open>new_price\<close> after that statement, before it is rounded.\<close>

definition clamped_price :: "pyfloat \<Rightarrow> market_data \<Rightarrow> pyfloat" where
  "clamped_price current_price md =
     pymax (lower_bound md) (pymin (trend_price current_price md) (upper_bound md))"

definition adjust_price :: "pyfloat \<Rightarrow> market_data \<Rightarrow> pyfloat" where
  "adjust_price current_price md = round2 (clamped_price current_price md)"

section \<open>The specification's reference definition of the adjustment\<close>

text \<open>
  Clamping as the specification words it: the lower bound takes precedence when the range
  is degenerate, otherwise a value below the range becomes the lower bound and a value
  above it the upper bound.
\<close>

definition clamp :: "pyfloat \<Rightarrow> pyfloat \<Rightarrow> pyfloat \<Rightarrow> pyfloat" where
  "clamp p lo hi = (if flt hi lo then lo else if flt p lo then lo else if flt hi p then hi else p)"

definition adjust_spec :: "pyfloat \<Rightarrow> market_data \<Rightarrow> pyfloat" where
  "adjust_spec current_price snapshot =
     (let p = fmul current_price (demand snapshot);
          p = (if trend snapshot = ''rising'' then fmul p lit_1_1
               else if trend snapshot = ''falling'' then fmul p lit_0_9
               else p);
          p = clamp p (fmul (competitor_price snapshot) lit_0_9)
                      (fmul (competitor_price snapshot) lit_1_1)
      in round2 p)"

text \<open>The competitor window and the ranges of a Market Snapshot, as the specification
  gives them.\<close>

definition in_window :: "pyfloat \<Rightarrow> market_data \<Rightarrow> bool" where
  "in_window r md = (fle (lower_bound md) r \<and> fle r (upper_bound md))"

definition market_snapshot :: "market_data \<Rightarrow> bool" where
  "market_snapshot md =
     (fle (Fin (1 / 2)) (demand md) \<and> flt (demand md) (Fin 2) \<and>
      fle (Fin 80) (competitor_price md) \<and> flt (competitor_price md) (Fin 120) \<and>
      (trend md = ''rising'' \<or> trend md = ''falling'' \<or> trend md = ''stable''))"

text \<open>A value of the model that is a binary64 value: rounding leaves it as it is.\<close>

fun is_float :: "pyfloat \<Rightarrow> bool" where
  "is_float (Fin x) = (fl x = Fin x)"
| "is_float a = True"

text \<open>The statement that keeps the price within the competitor range changes it.\<close>

definition clamps :: "pyfloat \<Rightarrow> market_data \<Rightarrow> bool" where
  "clamps current_price md = (clamped_price current_price md \<noteq> trend_price current_price md)"

section \<open>The service\<close>

subsection \<open>Values, requests and the store\<close>

text \<open>
  \<open>datetime.datetime.now()\<close> is a naive datetime; its fields are within their ranges
  (a year of four digits, a month of two, and so on).
\<close>

record datetime =
  year :: nat
  month :: nat
  day :: nat
  hour :: nat
  minute :: nat
  second :: nat
  microsecond :: nat

definition digit_char :: "nat \<Rightarrow> char" where
  "digit_char d = char_of (48 + d mod 10)"

fun zpad :: "nat \<Rightarrow> nat \<Rightarrow> string" where
  "zpad 0 n = []"
| "zpad (Suc w) n = zpad w (n div 10) @ [digit_char n]"

text \<open>\<open>datetime.isoformat()\<close>: \<open>YYYY-MM-DDTHH:MM:SS\<close>, followed by \<open>.ffffff\<close> unless the
  microsecond is 0.\<close>

definition isoformat :: "datetime \<Rightarrow> string" where
  "isoformat d =
     zpad 4 (year d) @ ''-'' @ zpad 2 (month d) @ ''-'' @ zpad 2 (day d) @ ''T'' @
     zpad 2 (hour d) @ '':'' @ zpad 2 (minute d) @ '':'' @ zpad 2 (second d) @
     (if microsecond d = 0 then [] else ''.'' @ zpad 6 (microsecond d))"

text \<open>
  The Python value that \<open>request.json()\<close> returns. A dictionary is given by its items;
  its keys are distinct.
\<close>

datatype pyval =
    PNone
  | PBool bool
  | PInt int
  | PFloat pyfloat
  | PStr string
  | PList "pyval list"
  | PDict "(string \<times> pyval) list"

text \<open>The \<open>detail\<close> of an \<open>HTTPException\<close>: a fixed text, or the f-string
  \<open>Product not found: {product_id}\<close>.\<close>

datatype detail = Text string | ProductNotFound pyval

datatype exn = HTTPException nat detail | TypeError | AttributeError | KeyError

record price_record =
  price :: pyfloat
  last_updated :: datetime

type_synonym store = "string \<rightharpoonup> price_record"

text \<open>The module-level \<open>pricing_db\<close>; the two calls of \<open>now()\<close> at import time are its
  parameters. The two inner dictionaries are distinct objects.\<close>

definition pricing_db :: "datetime \<Rightarrow> datetime \<Rightarrow> store" where
  "pricing_db t1 t2 =
     [''product1'' \<mapsto> \<lparr>price = Fin 100, last_updated = t1\<rparr>,
      ''product2'' \<mapsto> \<lparr>price = Fin 50, last_updated = t2\<rparr>]"

text \<open>
  A request to the webhook: the value of its \<open>content-type\<close> header if it has one, and
  the result of \<open>request.json()\<close>, \<open>None\<close> when that call raises.
\<close>

record request =
  content_type :: "string option"
  json_body :: "pyval option"

text \<open>What a call of the webhook takes from outside: the dictionary that
  \<open>get_market_data()\<close> returns and the two readings of the clock.\<close>

record env =
  market :: market_data
  now_update :: datetime
  now_response :: datetime

record response =
  product_id :: string
  old_price :: pyfloat
  new_price :: pyfloat
  market_data :: market_data
  timestamp :: string

subsection \<open>Python operations on the parsed body\<close>

text \<open>\<open>p in s\<close> on strings.\<close>

primrec contains_str :: "string \<Rightarrow> string \<Rightarrow> bool" where
  "contains_str [] p = (p = [])"
| "contains_str (c # cs) p = (take (length p) (c # cs) = p \<or> contains_str cs p)"

text \<open>The truth value of a Python value, as \<open>not data\<close> tests it.\<close>

fun truthy :: "pyval \<Rightarrow> bool" where
  "truthy PNone = False"
| "truthy (PBool b) = b"
| "truthy (PInt n) = (n \<noteq> 0)"
| "truthy (PFloat x) = (x \<noteq> Fin 0)"
| "truthy (PStr s) = (s \<noteq> [])"
| "truthy (PList xs) = (xs \<noteq> [])"
| "truthy (PDict kvs) = (kvs \<noteq> [])"

text \<open>\<open>k in data\<close> for a string \<open>k\<close>: a key of a dictionary, an element of a list, a
  substring of a string; any other value is not iterable.\<close>

fun py_in :: "string \<Rightarrow> pyval \<Rightarrow> exn + bool" where
  "py_in k (PDict kvs) = Inr (map_of kvs k \<noteq> None)"
| "py_in k (PList xs) = Inr (List.member xs (PStr k))"
| "py_in k (PStr s) = Inr (contains_str s k)"
| "py_in k v = Inl TypeError"

text \<open>\<open>data.get(k)\<close>: only a dictionary has the method.\<close>

fun py_get :: "pyval \<Rightarrow> string \<Rightarrow> exn + pyval" where
  "py_get (PDict kvs) k = Inr (case map_of kvs k of None \<Rightarrow> PNone | Some v \<Rightarrow> v)"
| "py_get v k = Inl AttributeError"

text \<open>
  \<open>product_id in pricing_db\<close>: a list or a dictionary is unhashable; the keys of the
  store are strings, so no value other than a string is one of them.
\<close>

fun hashable :: "pyval \<Rightarrow> bool" where
  "hashable (PList xs) = False"
| "hashable (PDict kvs) = False"
| "hashable v = True"

fun is_key :: "store \<Rightarrow> pyval \<Rightarrow> bool" where
  "is_key db (PStr s) = (db s \<noteq> None)"
| "is_key db v = False"

definition in_store :: "pyval \<Rightarrow> store \<Rightarrow> exn + bool" where
  "in_store v db = (if hashable v then Inr (is_key db v) else Inl TypeError)"

text \<open>\<open>pricing_db[product_id]\<close>: the key and the record it maps to.\<close>

fun db_item :: "store \<Rightarrow> pyval \<Rightarrow> exn + string \<times> price_record" where
  "db_item db (PStr s) = (case db s of None \<Rightarrow> Inl KeyError | Some r \<Rightarrow> Inr (s, r))"
| "db_item db v = (if hashable v then Inl KeyError else Inl TypeError)"

subsection \<open>The endpoints\<close>

text \<open>\<open>request.headers.get("content-type", "")\<close>.\<close>

definition content_type_header :: "request \<Rightarrow> string" where
  "content_type_header req = (case content_type req of None \<Rightarrow> [] | Some v \<Rightarrow> v)"

text \<open>The condition \<open>not data or "product_id" not in data\<close>; the right operand is
  evaluated only when \<open>data\<close> is true.\<close>

definition missing_field :: "pyval \<Rightarrow> exn + bool" where
  "missing_field data =
     (if \<not> truthy data then Inr True
      else case py_in ''product_id'' data of Inl x \<Rightarrow> Inl x | Inr b \<Rightarrow> Inr (\<not> b))"

text \<open>The statements after the validation: the price is read, adjusted and written with
  the time of the update, and the response is built.\<close>

definition update_price ::
  "string \<Rightarrow> price_record \<Rightarrow> env \<Rightarrow> store \<Rightarrow> response \<times> store" where
  "update_price k r e db =
     (let market_data = market e;
          current_price = price r;
          new_price = adjust_price current_price market_data;
          r = r\<lparr>price := new_price\<rparr>;
          r = r\<lparr>last_updated := now_update e\<rparr>
      in (\<lparr>product_id = k, old_price = current_price, new_price = new_price,
            market_data = market_data, timestamp = isoformat (now_response e)\<rparr>,
          db(k \<mapsto> r)))"

text \<open>The body of the \<open>try\<close> statement of \<open>market_update_webhook\<close>: what it raises or
  returns, and the store it leaves.\<close>

definition market_update_try ::
  "request \<Rightarrow> env \<Rightarrow> store \<Rightarrow> (exn + response) \<times> store" where
  "market_update_try req e db =
     (if \<not> contains_str (content_type_header req) ''application/json''
      then (Inl (HTTPException 400 (Text ''Content-Type must be application/json'')), db)
      else case json_body req of
        None \<Rightarrow> (Inl (HTTPException 400 (Text ''Invalid JSON format'')), db)
      | Some data \<Rightarrow>
         (case missing_field data of
            Inl x \<Rightarrow> (Inl x, db)
          | Inr True \<Rightarrow>
              (Inl (HTTPException 400 (Text ''Missing required field: product_id'')), db)
          | Inr False \<Rightarrow>
             (case py_get data ''product_id'' of
                Inl x \<Rightarrow> (Inl x, db)
              | Inr pid \<Rightarrow>
                 (case in_store pid db of
                    Inl x \<Rightarrow> (Inl x, db)
                  | Inr False \<Rightarrow> (Inl (HTTPException 404 (ProductNotFound pid)), db)
                  | Inr True \<Rightarrow>
                     (case db_item db pid of
                        Inl x \<Rightarrow> (Inl x, db)
                      | Inr (k, r) \<Rightarrow>
                         (case update_price k r e db of (resp, db') \<Rightarrow> (Inr resp, db')))))))"

fun is_http :: "exn \<Rightarrow> bool" where
  "is_http (HTTPException c d) = True"
| "is_http x = False"

text \<open>The two \<open>except\<close> clauses: an \<open>HTTPException\<close> is raised again, any other exception
  becomes the status 500.\<close>

definition market_update_webhook ::
  "request \<Rightarrow> env \<Rightarrow> store \<Rightarrow> (exn + response) \<times> store" where
  "market_update_webhook req e db =
     (case market_update_try req e db of
        (Inl (HTTPException c d), db') \<Rightarrow> (Inl (HTTPException c d), db')
      | (Inl x, db') \<Rightarrow> (Inl (HTTPException 500 (Text ''Internal server error'')), db')
      | (Inr r, db') \<Rightarrow> (Inr r, db'))"

definition get_pricing :: "string \<Rightarrow> store \<Rightarrow> (exn + price_record) \<times> store" where
  "get_pricing pid db =
     (case db pid of
        None \<Rightarrow> (Inl (HTTPException 404 (ProductNotFound (PStr pid))), db)
      | Some r \<Rightarrow> (Inr r, db))"

definition get_all_pricing :: "store \<Rightarrow> store \<times> store" where
  "get_all_pricing db = (db, db)"

definition health_check :: "datetime \<Rightarrow> store \<Rightarrow> (string \<times> string) \<times> store" where
  "health_check t db = ((''healthy'', isoformat t), db)"

text \<open>The exposed operations, and a sequence of requests run against the store.\<close>

datatype call =
    MarketUpdate request env
  | GetPricing string
  | GetAllPricing
  | HealthCheck datetime

fun handle :: "call \<Rightarrow> store \<Rightarrow> store" where
  "handle (MarketUpdate req e) db = snd (market_update_webhook req e db)"
| "handle (GetPricing pid) db = snd (get_pricing pid db)"
| "handle GetAllPricing db = snd (get_all_pricing db)"
| "handle (HealthCheck t) db = snd (health_check t db)"

fun run :: "call list \<Rightarrow> store \<Rightarrow> store" where
  "run [] db = db"
| "run (c # cs) db = run cs (handle c db)"

text \<open>The specification's "the parsed body contains the key": a JSON object with that key.\<close>

fun has_key :: "pyval \<Rightarrow> string \<Rightarrow> bool" where
  "has_key (PDict kvs) k = (map_of kvs k \<noteq> None)"
| "has_key v k = False"

subsection \<open>Example inputs\<close>

abbreviation example_time :: datetime where
  "example_time \<equiv>
     \<lparr>year = 2025, month = 3, day = 4, hour = 5, minute = 6, second = 7, microsecond = 8\<rparr>"

abbreviation startup_time :: datetime where
  "startup_time \<equiv>
     \<lparr>year = 2025, month = 2, day = 3, hour = 4, minute = 5, second = 6, microsecond = 0\<rparr>"

abbreviation example_snapshot :: market_data where
  "example_snapshot \<equiv> \<lparr>demand = Fin (3 / 2), competitor_price = Fin 100, trend = ''rising''\<rparr>"

abbreviation example_env :: env where
  "example_env \<equiv>
     \<lparr>market = example_snapshot, now_update = example_time, now_response = example_time\<rparr>"

abbreviation json_request :: "pyval \<Rightarrow> request" where
  "json_request data \<equiv> \<lparr>content_type = Some ''application/json'', json_body = Some data\<rparr>"

section \<open>Properties of rounding\<close>

subsection \<open>Rounding to an integer\<close>

lemma rhe_of_int: "rhe (of_int n) = n"
  by (simp add: rhe_def)

lemma rhe_floor_le: "\<lfloor>x\<rfloor> \<le> rhe x" and rhe_le_floor: "rhe x \<le> \<lfloor>x\<rfloor> + 1"
  unfolding rhe_def Let_def by auto

lemma rhe_mono:
  assumes "x \<le> y"
  shows "rhe x \<le> rhe y"
proof (cases "\<lfloor>x\<rfloor> = \<lfloor>y\<rfloor>")
  case True
  with assms show ?thesis
    unfolding rhe_def Let_def by auto
next
  case False
  with assms have "\<lfloor>x\<rfloor> + 1 \<le> \<lfloor>y\<rfloor>"
    using floor_mono [of x y] by linarith
  with rhe_le_floor [of x] rhe_floor_le [of y] show ?thesis by linarith
qed

lemma rhe_minus: "rhe (- x) = - rhe x"
proof (cases "x = of_int \<lfloor>x\<rfloor>")
  case True
  then obtain n where "x = of_int n" ..
  then show ?thesis by (simp add: rhe_def flip: of_int_minus)
next
  case False
  then have f: "\<lfloor>- x\<rfloor> = - \<lfloor>x\<rfloor> - 1"
    by (simp add: floor_minus ceiling_altdef)
  show ?thesis
    unfolding rhe_def Let_def f by (auto; linarith?)
qed

lemma rhe_frac:
  assumes "0 < b"
  shows "rhe (of_int a / of_int b) =
    (if 2 * (a mod b) < b then a div b else if b < 2 * (a mod b) then a div b + 1
     else if even (a div b) then a div b else a div b + 1)"
proof -
  have f: "\<lfloor>(of_int a :: rat) / of_int b\<rfloor> = a div b"
    by (rule floor_divide_of_int_eq)
  have "of_int a = (of_int (a div b) * of_int b + of_int (a mod b) :: rat)"
    by (metis of_int_add of_int_mult div_mult_mod_eq)
  with assms have d: "(of_int a :: rat) / of_int b - of_int (a div b) = of_int (a mod b) / of_int b"
    by (simp add: field_simps)
  have "(of_int (a mod b) / of_int b < (1 / 2 :: rat)) = ((of_int (2 * (a mod b)) :: rat) < of_int b)"
    using assms by (simp add: field_simps)
  then have lt: "(of_int (a mod b) / of_int b < (1 / 2 :: rat)) = (2 * (a mod b) < b)"
    by (simp only: of_int_less_iff)
  have "((1 / 2 :: rat) < of_int (a mod b) / of_int b) = ((of_int b :: rat) < of_int (2 * (a mod b)))"
    using assms by (simp add: field_simps)
  then have gt: "((1 / 2 :: rat) < of_int (a mod b) / of_int b) = (b < 2 * (a mod b))"
    by (simp only: of_int_less_iff)
  show ?thesis
    unfolding rhe_def Let_def f d lt gt by simp
qed


subsection \<open>The binary exponent\<close>

lemma ilog2_bounds_ge1:
  assumes "1 \<le> x"
  shows "2 powi ilog2 x \<le> x" "x < 2 powi (ilog2 x + 1)"
proof -
  let ?n = "\<lfloor>x\<rfloor>"
  from assms have n: "0 < ?n" by linarith
  from bitlen_bounds [OF n] have b: "2 ^ nat (bitlen ?n - 1) \<le> ?n" "?n < 2 ^ nat (bitlen ?n)"
    by simp_all
  from n have k: "1 \<le> bitlen ?n"
    using bitlen_eq_zero_iff [of ?n] bitlen_nonneg [of ?n] by linarith
  have e: "ilog2 x = bitlen ?n - 1" using assms by (simp add: ilog2_def)
  have "(2::rat) powi (bitlen ?n - 1) = of_int (2 ^ nat (bitlen ?n - 1))"
    using k by (simp add: power_int_def)
  also have "\<dots> \<le> of_int ?n" using b(1) by (simp only: of_int_le_iff)
  also have "\<dots> \<le> x" by simp
  finally show "2 powi ilog2 x \<le> x" by (simp add: e)
  have "?n + 1 \<le> 2 ^ nat (bitlen ?n)" using b(2) by simp
  then have "(of_int (?n + 1) :: rat) \<le> of_int (2 ^ nat (bitlen ?n))"
    by (simp only: of_int_le_iff)
  moreover have "x < of_int (?n + 1)" by linarith
  moreover have "(2::rat) powi (bitlen ?n) = of_int (2 ^ nat (bitlen ?n))"
    using k by (simp add: power_int_def)
  ultimately show "x < 2 powi (ilog2 x + 1)" by (simp add: e)
qed

lemma ilog2_bounds_lt1:
  assumes "0 < x" "x < 1"
  shows "2 powi ilog2 x \<le> x" "x < 2 powi (ilog2 x + 1)"
proof -
  let ?m = "\<lceil>1 / x\<rceil> - 1"
  from assms have "1 < 1 / x" by simp
  then have m: "0 < ?m" by linarith
  from bitlen_bounds [OF m] have b: "2 ^ nat (bitlen ?m - 1) \<le> ?m" "?m < 2 ^ nat (bitlen ?m)"
    by simp_all
  from m have k: "1 \<le> bitlen ?m"
    using bitlen_eq_zero_iff [of ?m] bitlen_nonneg [of ?m] by linarith
  have e: "ilog2 x = - bitlen ?m" using assms by (simp add: ilog2_def)
  have p: "(2::rat) powi (- bitlen ?m) = 1 / of_int (2 ^ nat (bitlen ?m))"
    using k by (simp add: power_int_def field_simps)
  have "?m + 1 \<le> 2 ^ nat (bitlen ?m)" using b(2) by simp
  then have "(of_int (?m + 1) :: rat) \<le> of_int (2 ^ nat (bitlen ?m))"
    by (simp only: of_int_le_iff)
  moreover have "1 / x \<le> of_int (?m + 1)" by simp
  ultimately have "1 / x \<le> of_int (2 ^ nat (bitlen ?m))" by linarith
  with assms(1) have "1 / of_int (2 ^ nat (bitlen ?m)) \<le> x"
    by (simp add: field_simps)
  then show "2 powi ilog2 x \<le> x" by (simp only: e p)
  have "(2::rat) powi (- (bitlen ?m - 1)) = inverse (2 powi (bitlen ?m - 1))"
    by (rule power_int_minus)
  also have "(2::rat) powi (bitlen ?m - 1) = 2 ^ nat (bitlen ?m - 1)"
    using k by (intro power_int_nonneg_exp) simp
  finally have q: "(2::rat) powi (- bitlen ?m + 1) = 1 / of_int (2 ^ nat (bitlen ?m - 1))"
    by (simp add: field_simps)
  have "(of_int (2 ^ nat (bitlen ?m - 1)) :: rat) \<le> of_int ?m"
    using b(1) by (simp only: of_int_le_iff)
  moreover have "of_int ?m < 1 / x" by linarith
  ultimately have "of_int (2 ^ nat (bitlen ?m - 1)) < 1 / x" by linarith
  with assms(1) have "x < 1 / of_int (2 ^ nat (bitlen ?m - 1))"
    by (simp add: field_simps)
  then show "x < 2 powi (ilog2 x + 1)" by (simp only: e q)
qed

lemma ilog2_bounds:
  assumes "0 < x"
  shows "2 powi ilog2 x \<le> x" "x < 2 powi (ilog2 x + 1)"
  using assms ilog2_bounds_ge1 [of x] ilog2_bounds_lt1 [of x]
  by (cases "1 \<le> x"; simp)+

lemma pow2_mono: "k \<le> j \<Longrightarrow> (2::rat) powi k \<le> 2 powi j"
  by (rule power_int_increasing) simp_all

lemma pow2_pos: "0 < (2::rat) powi k"
  by (simp add: zero_less_power_int)

lemma ilog2_unique:
  assumes "2 powi k \<le> x" "x < 2 powi (k + 1)"
  shows "ilog2 x = k"
proof -
  from assms(1) pow2_pos [of k] have x: "0 < x" by linarith
  note b = ilog2_bounds [OF x]
  have "\<not> ilog2 x < k"
  proof
    assume "ilog2 x < k"
    then have "(2::rat) powi (ilog2 x + 1) \<le> 2 powi k" by (intro pow2_mono) simp
    with b(2) assms(1) show False by linarith
  qed
  moreover have "\<not> k < ilog2 x"
  proof
    assume "k < ilog2 x"
    then have "(2::rat) powi (k + 1) \<le> 2 powi ilog2 x" by (intro pow2_mono) simp
    with b(1) assms(2) show False by linarith
  qed
  ultimately show ?thesis by linarith
qed

subsection \<open>Rounding to a float is monotone\<close>

lemma quantum_binade: "quantum x = 2 powi (binade x - 52)"
  by (simp add: quantum_def)

lemma ilog2_mono:
  assumes "0 < x" "x \<le> y"
  shows "ilog2 x \<le> ilog2 y"
proof (rule ccontr)
  assume "\<not> ilog2 x \<le> ilog2 y"
  then have "(2::rat) powi (ilog2 y + 1) \<le> 2 powi ilog2 x" by (intro pow2_mono) simp
  moreover from assms have "0 < y" by simp
  ultimately show False
    using ilog2_bounds(1) [OF assms(1)] ilog2_bounds(2) [of y] assms(2) by linarith
qed

lemma binade_mono: "0 < x \<Longrightarrow> x \<le> y \<Longrightarrow> binade x \<le> binade y"
  using ilog2_mono [of x y] by (simp add: binade_def)

lemma binade_upper: "0 < x \<Longrightarrow> x < 2 powi (binade x + 1)"
proof -
  assume x: "0 < x"
  have "(2::rat) powi (ilog2 x + 1) \<le> 2 powi (binade x + 1)"
    using x by (intro pow2_mono) (simp add: binade_def)
  with ilog2_bounds(2) [OF x] show ?thesis by linarith
qed

lemma binade_lower: "0 < x \<Longrightarrow> - 1022 < binade x \<Longrightarrow> 2 powi binade x \<le> x"
  using ilog2_bounds(1) [of x] by (simp add: binade_def max_def split: if_splits)

lemma quantum_pos: "0 < quantum x"
  by (simp add: quantum_def pow2_pos)

lemma pow2_diff: "(2::rat) powi a / 2 powi b = 2 powi (a - b)"
  by (simp add: power_int_diff)

lemma pow2_add: "(2::rat) powi a * 2 powi b = 2 powi (a + b)"
  by (simp add: power_int_add)

lemma rnd_le_pow2:
  assumes "0 < x"
  shows "rnd x \<le> 2 powi (binade x + 1)"
proof -
  let ?Q = "quantum x"
  have "x / ?Q \<le> 2 powi (binade x + 1) / ?Q"
    using binade_upper [OF assms] quantum_pos [of x] by (simp add: divide_right_mono)
  also have "\<dots> = 2 powi 53" by (simp add: quantum_binade pow2_diff)
  also have "\<dots> = of_int (2 ^ 53)" by simp
  finally have "rhe (x / ?Q) \<le> rhe (of_int (2 ^ 53))" by (rule rhe_mono)
  then have "rhe (x / ?Q) \<le> 2 ^ 53" by (simp only: rhe_of_int)
  then have "(of_int (rhe (x / ?Q)) :: rat) \<le> of_int (2 ^ 53)" by (simp only: of_int_le_iff)
  then have "of_int (rhe (x / ?Q)) * ?Q \<le> of_int (2 ^ 53) * ?Q"
    using quantum_pos [of x] by (simp add: mult_right_mono)
  also have "of_int (2 ^ 53) * ?Q = 2 powi 53 * 2 powi (binade x - 52)"
    by (simp add: quantum_binade)
  also have "\<dots> = 2 powi (53 + (binade x - 52))" by (simp only: pow2_add)
  also have "53 + (binade x - 52) = binade x + 1" by simp
  finally show ?thesis using assms by (simp add: rnd_def)
qed

lemma rnd_ge_pow2:
  assumes "0 < x" "- 1022 < binade x"
  shows "2 powi binade x \<le> rnd x"
proof -
  let ?Q = "quantum x"
  have "2 powi binade x / ?Q \<le> x / ?Q"
    using binade_lower [OF assms] quantum_pos [of x] by (simp add: divide_right_mono)
  moreover have "2 powi binade x / ?Q = 2 powi 52" by (simp add: quantum_binade pow2_diff)
  moreover have "(2::rat) powi 52 = of_int (2 ^ 52)" by simp
  ultimately have "of_int (2 ^ 52) \<le> x / ?Q" by simp
  then have "rhe (of_int (2 ^ 52)) \<le> rhe (x / ?Q)" by (rule rhe_mono)
  then have "2 ^ 52 \<le> rhe (x / ?Q)" by (simp only: rhe_of_int)
  then have "(of_int (2 ^ 52) :: rat) \<le> of_int (rhe (x / ?Q))" by (simp only: of_int_le_iff)
  then have "of_int (2 ^ 52) * ?Q \<le> of_int (rhe (x / ?Q)) * ?Q"
    using quantum_pos [of x] by (simp add: mult_right_mono)
  moreover have "of_int (2 ^ 52) * ?Q = 2 powi 52 * 2 powi (binade x - 52)"
    by (simp add: quantum_binade)
  moreover have "2 powi 52 * 2 powi (binade x - 52) = (2::rat) powi binade x"
    by (simp only: pow2_add add_diff_eq add_diff_cancel_left')
  ultimately show ?thesis using assms by (simp add: rnd_def)
qed

lemma rnd_mono_pos:
  assumes "0 < x" "x \<le> y"
  shows "rnd x \<le> rnd y"
proof (cases "binade x = binade y")
  case True
  then have q: "quantum x = quantum y" by (simp add: quantum_binade)
  have "x / quantum y \<le> y / quantum y"
    using assms(2) quantum_pos [of y] by (simp add: divide_right_mono)
  then have "rhe (x / quantum y) \<le> rhe (y / quantum y)" by (rule rhe_mono)
  then have "(of_int (rhe (x / quantum y)) :: rat) \<le> of_int (rhe (y / quantum y))"
    by (simp only: of_int_le_iff)
  then have "of_int (rhe (x / quantum y)) * quantum y \<le> of_int (rhe (y / quantum y)) * quantum y"
    using quantum_pos [of y] by (simp add: mult_right_mono)
  with assms show ?thesis by (simp add: rnd_def q)
next
  case False
  with binade_mono [OF assms] have lt: "binade x + 1 \<le> binade y" by simp
  from assms have y: "0 < y" by simp
  have "- 1022 \<le> binade x" by (simp add: binade_def)
  with lt have "- 1022 < binade y" by simp
  from rnd_ge_pow2 [OF y this] rnd_le_pow2 [OF assms(1)] pow2_mono [OF lt]
  show ?thesis by linarith
qed

lemma rnd_zero: "rnd 0 = 0"
  by (simp add: rnd_def)

lemma rnd_minus: "rnd (- x) = - rnd x"
  by (simp add: rnd_def quantum_def binade_def rhe_minus)

lemma rnd_nonneg: "0 \<le> x \<Longrightarrow> 0 \<le> rnd x"
  using rhe_mono [of 0 "x / quantum x"] quantum_pos [of x]
  by (simp add: rnd_def rhe_def)

lemma rnd_mono:
  assumes "x \<le> y"
  shows "rnd x \<le> rnd y"
proof -
  consider "0 < x" | "y < 0" | "x \<le> 0" "0 \<le> y" by linarith
  then show ?thesis
  proof cases
    case 1
    then show ?thesis using assms by (rule rnd_mono_pos)
  next
    case 2
    with assms have "rnd (- y) \<le> rnd (- x)" by (intro rnd_mono_pos) simp_all
    then show ?thesis by (simp add: rnd_minus)
  next
    case 3
    from 3(1) have "0 \<le> rnd (- x)" by (intro rnd_nonneg) simp
    then have "rnd x \<le> 0" by (simp add: rnd_minus)
    with rnd_nonneg [OF 3(2)] show ?thesis by linarith
  qed
qed

lemma fl_not_NaN: "fl x \<noteq> NaN"
  by (simp add: fl_def Let_def)

lemma fl_mono: "x \<le> y \<Longrightarrow> fle (fl x) (fl y)"
  using rnd_mono [of x y] by (simp add: fl_def Let_def)

lemma fl_zero: "fl 0 = Fin 0"
  by (simp add: fl_def rnd_zero)

lemma fl_eval:
  assumes "2 powi e \<le> \<bar>x\<bar>" "\<bar>x\<bar> < 2 powi (e + 1)" "- 1022 \<le> e" "e \<le> 1022"
  shows "fl x = Fin (of_int (rhe (x / 2 powi (e - 52))) * 2 powi (e - 52))"
proof -
  have i: "ilog2 \<bar>x\<bar> = e" using assms(1,2) by (rule ilog2_unique)
  with assms(3) have b: "binade \<bar>x\<bar> = e" "binade x = e" by (simp_all add: binade_def)
  from assms(1) pow2_pos [of e] have x: "0 < \<bar>x\<bar>" by linarith
  have "rnd \<bar>x\<bar> \<le> 2 powi (e + 1)" using rnd_le_pow2 [OF x] by (simp add: b)
  also have "\<dots> \<le> 2 powi 1023" using assms(4) by (intro pow2_mono) simp
  also have "\<dots> < 2 ^ 1024" by simp
  finally have u: "rnd \<bar>x\<bar> < 2 ^ 1024" .
  have "\<bar>rnd x\<bar> = rnd \<bar>x\<bar>"
    using rnd_nonneg [of x] rnd_nonneg [of "- x"] by (cases "0 \<le> x") (simp_all add: rnd_minus abs_if)
  with u have "\<bar>rnd x\<bar> < 2 ^ 1024" by simp
  then have "fl x = Fin (rnd x)" by (simp add: fl_def Let_def abs_if split: if_splits)
  moreover from x have "x \<noteq> 0" by simp
  ultimately show ?thesis by (simp add: rnd_def quantum_binade b)
qed

subsection \<open>Evaluating roundings\<close>

lemma rhe_numeral_frac:
  "rhe (numeral a / numeral b) =
    (if 2 * (numeral a mod numeral b) < (numeral b :: int) then numeral a div numeral b
     else if (numeral b :: int) < 2 * (numeral a mod numeral b) then numeral a div numeral b + 1
     else if even (numeral a div numeral b :: int) then numeral a div numeral b
     else numeral a div numeral b + 1)"
  using rhe_frac [of "numeral b" "numeral a"] by simp

lemma rhe_numeral: "rhe (numeral a) = numeral a"
  using rhe_of_int [of "numeral a"] by simp

lemma lit_0_9_eval: "lit_0_9 = Fin (8106479329266893 / 9007199254740992)"
  unfolding lit_0_9_def using fl_eval [of "- 1" "9 / 10"] by (simp add: rhe_numeral_frac)

lemma lit_1_1_eval: "lit_1_1 = Fin (2476979795053773 / 2251799813685248)"
  unfolding lit_1_1_def using fl_eval [of 0 "11 / 10"] by (simp add: rhe_numeral_frac)


section \<open>The order of floats, and the clamping\<close>

lemma fle_trans: "fle a b \<Longrightarrow> fle b c \<Longrightarrow> fle a c"
  by (cases a; cases b; cases c) simp_all

lemma fle_refl: "a \<noteq> NaN \<Longrightarrow> fle a a"
  by (cases a) simp_all

lemma fle_not_NaN: "fle a b \<Longrightarrow> a \<noteq> NaN \<and> b \<noteq> NaN"
  by (cases a; cases b) simp_all

lemma flt_iff_not_fle: "a \<noteq> NaN \<Longrightarrow> b \<noteq> NaN \<Longrightarrow> flt a b = (\<not> fle b a)"
  by (cases a; cases b) auto

lemma fle_flt_trans: "fle a (Fin x) \<Longrightarrow> x < y \<Longrightarrow> fle (Fin y) b \<Longrightarrow> flt a b"
  by (cases a; cases b) simp_all

lemma fle_fl_PInf: "fle (fl x) PInf" and fle_NInf_fl: "fle NInf (fl x)"
  by (simp_all add: fl_def Let_def)

lemma round2_mono: "fle a b \<Longrightarrow> fle (round2 a) (round2 b)"
proof (cases a; cases b)
  fix x y
  assume ab: "a = Fin x" "b = Fin y" and "fle a b"
  then have "x * 100 \<le> y * 100" by simp
  then have "rhe (x * 100) \<le> rhe (y * 100)" by (rule rhe_mono)
  then have "(of_int (rhe (x * 100)) :: rat) / 100 \<le> of_int (rhe (y * 100)) / 100" by simp
  then show ?thesis unfolding ab round2.simps by (rule fl_mono)
qed (simp_all add: fle_fl_PInf fle_NInf_fl)

lemma round2_not_NaN: "a \<noteq> NaN \<Longrightarrow> round2 a \<noteq> NaN"
  by (cases a) (simp_all add: fl_not_NaN)

lemma clamp_in_window:
  assumes "fle lo hi"
  shows "fle lo (pymax lo (pymin p hi))" "fle (pymax lo (pymin p hi)) hi"
  using assms by (cases lo; cases hi; cases p; simp add: pymax_def pymin_def)+

lemma pymax_ge: "lo \<noteq> NaN \<Longrightarrow> fle lo (pymax lo z)"
  by (cases lo; cases z) (simp_all add: pymax_def)

lemma no_clamp_in_window:
  assumes "fle lo hi" "pymax lo (pymin p hi) = p"
  shows "fle lo p" "fle p hi"
  using assms by (cases lo; cases hi; cases p; simp add: pymax_def pymin_def split: if_splits)+

lemma pymax_pymin_clamp:
  assumes "p \<noteq> NaN" "lo \<noteq> NaN" "hi \<noteq> NaN"
  shows "pymax lo (pymin p hi) = clamp p lo hi"
  using assms by (cases lo; cases hi; cases p) (auto simp: pymax_def pymin_def clamp_def)

lemma lit_0_9_pos: "lit_0_9 = Fin a \<Longrightarrow> 0 < a"
  by (simp add: lit_0_9_eval)

lemma fmul_lit_not_NaN:
  assumes "a \<noteq> NaN"
  shows "fmul a lit_0_9 \<noteq> NaN" "fmul a lit_1_1 \<noteq> NaN"
  using assms by (cases a; simp add: lit_0_9_eval lit_1_1_eval fl_not_NaN)+



subsection \<open>The competitor window\<close>

lemma window_ordered:
  assumes "fle (Fin 0) c"
  shows "fle (fmul c lit_0_9) (fmul c lit_1_1)"
proof (cases c)
  case (Fin x)
  with assms have "0 \<le> x" by simp
  then have "x * (8106479329266893 / 9007199254740992) \<le> x * (2476979795053773 / 2251799813685248)"
    by (intro mult_left_mono) simp_all
  then show ?thesis
    unfolding Fin lit_0_9_eval lit_1_1_eval fmul.simps by (rule fl_mono)
qed (use assms in \<open>simp_all add: lit_0_9_eval lit_1_1_eval\<close>)

lemma lower_bound_nonneg:
  assumes "flt (Fin 0) c"
  shows "fle (Fin 0) (fmul c lit_0_9)"
proof (cases c)
  case (Fin x)
  with assms have "0 \<le> x * (8106479329266893 / 9007199254740992)" by simp
  then have "fle (fl 0) (fl (x * (8106479329266893 / 9007199254740992)))" by (rule fl_mono)
  then show ?thesis
    unfolding Fin lit_0_9_eval fmul.simps by (simp add: fl_zero)
qed (use assms in \<open>simp_all add: lit_0_9_eval\<close>)

lemma fl_ge_imp:
  assumes "fle (Fin u) (fl x)" "fl l = Fin l" "l < u"
  shows "l \<le> x"
proof (rule ccontr)
  assume "\<not> l \<le> x"
  then have "x \<le> l" by simp
  then have "fle (fl x) (fl l)" by (rule fl_mono)
  with assms(1) have "fle (Fin u) (fl l)" by (rule fle_trans)
  with assms(2,3) show False by simp
qed

lemma fl_le_imp:
  assumes "fle (fl x) (Fin l)" "fl u = Fin u" "l < u"
  shows "x \<le> u"
proof (rule ccontr)
  assume "\<not> x \<le> u"
  then have "u \<le> x" by simp
  then have "fle (fl u) (fl x)" by (rule fl_mono)
  then have "fle (fl u) (Fin l)" using assms(1) by (rule fle_trans)
  with assms(2,3) show False by simp
qed

subsection \<open>Values of the operations at the inputs used below\<close>

lemma rhe_zero: "rhe 0 = 0"
  using rhe_of_int [of 0] by simp

lemma fl_int_evals:
  "fl 50 = Fin 50" "fl 899 = Fin 899" "fl 901 = Fin 901" "fl 1098 = Fin 1098" "fl 1101 = Fin 1101"
  "fl 100 = Fin 100" "fl 1000 = Fin 1000" "fl 110 = Fin 110" "fl 150 = Fin 150"
  using fl_eval [of 5 50] fl_eval [of 9 899] fl_eval [of 9 901] fl_eval [of 10 1098]
    fl_eval [of 10 1101] fl_eval [of 6 100] fl_eval [of 9 1000] fl_eval [of 6 110] fl_eval [of 7 150]
  by (simp_all add: rhe_numeral)

lemma fl_frac_evals:
  "fl (1 / 2) = Fin (1 / 2)" "fl (641 / 8) = Fin (641 / 8)" "fl (3 / 2) = Fin (3 / 2)"
  using fl_eval [of "- 1" "1 / 2"] fl_eval [of 6 "641 / 8"] fl_eval [of 0 "3 / 2"]
  by (simp_all add: rhe_numeral)

lemma fmul_1000_evals:
  "fmul (Fin 1000) lit_0_9 = Fin 900" "fmul (Fin 1000) lit_1_1 = Fin 1100"
  unfolding lit_0_9_eval lit_1_1_eval fmul.simps
  using fl_eval [of 9 "1000 * (8106479329266893 / 9007199254740992)"]
    fl_eval [of 10 "1000 * (2476979795053773 / 2251799813685248)"]
  by (simp_all add: rhe_numeral_frac rhe_numeral)

lemma fmul_641_8_evals:
  "fmul (Fin (641 / 8)) lit_0_9 = Fin (5074466064511795 / 70368744177664)"
  "fmul (Fin (641 / 8)) lit_1_1 = Fin (6202125189958861 / 70368744177664)"
  unfolding lit_0_9_eval lit_1_1_eval fmul.simps
  using fl_eval [of 6 "641 / 8 * (8106479329266893 / 9007199254740992)"]
    fl_eval [of 6 "641 / 8 * (2476979795053773 / 2251799813685248)"]
  by (simp_all add: rhe_numeral_frac rhe_numeral)

lemma round2_evals:
  "round2 (Fin (5074466064511795 / 70368744177664)) = Fin (5074290142651351 / 70368744177664)"
  "round2 (Fin 901) = Fin 901" "round2 (Fin 1098) = Fin 1098" "round2 (Fin 0) = Fin 0"
  "round2 (Fin 900) = Fin 900" "round2 (Fin 1100) = Fin 1100" "round2 (Fin 110) = Fin 110"
  using fl_eval [of 6 "7211 / 100"] fl_eval [of 9 901] fl_eval [of 10 1098]
      fl_eval [of 9 900] fl_eval [of 10 1100] fl_eval [of 6 110]
  by (simp_all add: rhe_numeral_frac rhe_numeral fl_zero rhe_zero)

lemma fmul_100_evals:
  "fmul (Fin 100) lit_0_9 = Fin 90" "fmul (Fin 100) lit_1_1 = Fin (7740561859543041 / 70368744177664)"
  "fmul (Fin 150) lit_1_1 = Fin 165"
  unfolding lit_0_9_eval lit_1_1_eval fmul.simps
  using fl_eval [of 6 "100 * (8106479329266893 / 9007199254740992)"]
    fl_eval [of 6 "100 * (2476979795053773 / 2251799813685248)"]
    fl_eval [of 7 "150 * (2476979795053773 / 2251799813685248)"]
  by (simp_all add: rhe_numeral_frac rhe_numeral)

lemma round2_eval_90: "round2 (Fin 90) = Fin 90"
  using fl_eval [of 6 90] by (simp add: rhe_numeral)

lemma round2_eval_110: "round2 (Fin (7740561859543041 / 70368744177664)) = Fin 110"
  using fl_eval [of 6 110] by (simp add: rhe_numeral_frac rhe_numeral)

section \<open>The price adjustment: claims\<close>

text \<open>
  At a current price that is NaN, with demand 1.5, competitor price 100.0 and a rising
  trend, \<open>min\<close> keeps the NaN and \<open>max\<close> keeps the lower bound: \<open>adjust_price\<close> returns
  90.0, where clamping as the specification words it leaves the NaN.
\<close>

theorem adjust_price_refines_spec_counterexample:
  "adjust_price NaN \<lparr>demand = Fin (3 / 2), competitor_price = Fin 100, trend = ''rising''\<rparr> = Fin 90 \<and>
   adjust_spec NaN \<lparr>demand = Fin (3 / 2), competitor_price = Fin 100, trend = ''rising''\<rparr> = NaN \<and>
   adjust_price NaN \<lparr>demand = Fin (3 / 2), competitor_price = Fin 100, trend = ''rising''\<rparr>
     \<noteq> adjust_spec NaN \<lparr>demand = Fin (3 / 2), competitor_price = Fin 100, trend = ''rising''\<rparr>"
  by (simp add: adjust_price_def adjust_spec_def clamped_price_def trend_price_def lower_bound_def
      upper_bound_def clamp_def fmul_100_evals pymax_def pymin_def round2_eval_90
      del: round2.simps(1))

text \<open>
  C1, as amended. \<open>adjust_price\<close> is a function of its two arguments, and it equals the
  reference definition \<open>adjust_spec\<close> written from the specification's algorithm (multiply
  by the demand, multiply by 1.1 or 0.9 on a rising or falling trend, clamp with the lower
  bound taking precedence, round to 2 decimals), for every current price and snapshot in
  which the price times the demand and the competitor price are numbers (not NaN).
\<close>

theorem adjust_price_refines_spec:
  assumes "fmul current_price (demand snapshot) \<noteq> NaN" "competitor_price snapshot \<noteq> NaN"
  shows "adjust_price current_price snapshot = adjust_spec current_price snapshot"
proof -
  have "trend_price current_price snapshot \<noteq> NaN"
    using assms(1) by (simp add: trend_price_def Let_def fmul_lit_not_NaN)
  then have "pymax (lower_bound snapshot) (pymin (trend_price current_price snapshot) (upper_bound snapshot))
    = clamp (trend_price current_price snapshot) (lower_bound snapshot) (upper_bound snapshot)"
    using assms(2) by (intro pymax_pymin_clamp) (simp_all add: lower_bound_def upper_bound_def fmul_lit_not_NaN)
  then show ?thesis
    by (simp add: adjust_price_def clamped_price_def adjust_spec_def Let_def trend_price_def
        lower_bound_def upper_bound_def)
qed

theorem adjust_price_refines_spec_witness:
  "fmul (Fin 100) (demand \<lparr>demand = Fin (3 / 2), competitor_price = Fin 100, trend = ''rising''\<rparr>) \<noteq> NaN \<and>
   competitor_price \<lparr>demand = Fin (3 / 2), competitor_price = Fin 100, trend = ''rising''\<rparr> \<noteq> NaN \<and>
   adjust_price (Fin 100) \<lparr>demand = Fin (3 / 2), competitor_price = Fin 100, trend = ''rising''\<rparr> = Fin 110 \<and>
   adjust_spec (Fin 100) \<lparr>demand = Fin (3 / 2), competitor_price = Fin 100, trend = ''rising''\<rparr> = Fin 110"
proof -
  let ?md = "\<lparr>demand = Fin (3 / 2), competitor_price = Fin 100, trend = ''rising''\<rparr>"
  have h1: "fmul (Fin 100) (demand ?md) \<noteq> NaN" by (simp add: fl_not_NaN)
  have h2: "competitor_price ?md \<noteq> NaN" by simp
  have "adjust_price (Fin 100) ?md = Fin 110"
    by (simp add: adjust_price_def clamped_price_def trend_price_def lower_bound_def upper_bound_def
        fl_int_evals fmul_100_evals pymax_def pymin_def round2_eval_110 del: round2.simps)
  with adjust_price_refines_spec [OF h1 h2] h1 h2 show ?thesis by simp
qed

text \<open>
  At the price 100.0 and the snapshot with demand 0.5, competitor price 80.125 and a
  stable trend, all within the ranges of a Market Snapshot, the lower end of the window is
  the float nearest to 72.1125, and the returned value is the float nearest to 72.11, below
  the window.
\<close>

theorem adjust_price_window_counterexample:
  "flt (Fin 0) (Fin 100) \<and> is_float (Fin 100) \<and>
   market_snapshot \<lparr>demand = Fin (1 / 2), competitor_price = Fin (641 / 8), trend = ''stable''\<rparr> \<and>
   is_float (Fin (1 / 2)) \<and> is_float (Fin (641 / 8)) \<and>
   adjust_price (Fin 100) \<lparr>demand = Fin (1 / 2), competitor_price = Fin (641 / 8), trend = ''stable''\<rparr>
     = Fin (5074290142651351 / 70368744177664) \<and>
   lower_bound \<lparr>demand = Fin (1 / 2), competitor_price = Fin (641 / 8), trend = ''stable''\<rparr>
     = Fin (5074466064511795 / 70368744177664) \<and>
   \<not> in_window
       (adjust_price (Fin 100) \<lparr>demand = Fin (1 / 2), competitor_price = Fin (641 / 8), trend = ''stable''\<rparr>)
       \<lparr>demand = Fin (1 / 2), competitor_price = Fin (641 / 8), trend = ''stable''\<rparr>"
  by (simp add: adjust_price_def clamped_price_def trend_price_def lower_bound_def upper_bound_def
      in_window_def market_snapshot_def fl_int_evals fl_frac_evals fmul_641_8_evals pymax_def pymin_def
      round2_evals del: round2.simps)

text \<open>
  C2, as amended. For every current price and every snapshot whose competitor price is a
  number not below 0 (every Market Snapshot is one), the price before rounding lies within
  the window from \<open>competitor_price * 0.9\<close> to \<open>competitor_price * 1.1\<close>, the returned value
  is that price rounded to 2 decimals, and it lies within the window from
  \<open>round(competitor_price * 0.9, 2)\<close> to \<open>round(competitor_price * 1.1, 2)\<close>.
\<close>

theorem adjust_price_in_rounded_window:
  assumes "fle (Fin 0) (competitor_price md)"
  shows "in_window (clamped_price current_price md) md \<and>
         adjust_price current_price md = round2 (clamped_price current_price md) \<and>
         fle (round2 (lower_bound md)) (adjust_price current_price md) \<and>
         fle (adjust_price current_price md) (round2 (upper_bound md))"
proof -
  have lh: "fle (lower_bound md) (upper_bound md)"
    unfolding lower_bound_def upper_bound_def using assms by (rule window_ordered)
  have w: "fle (lower_bound md) (clamped_price current_price md)"
    "fle (clamped_price current_price md) (upper_bound md)"
    unfolding clamped_price_def using lh by (rule clamp_in_window)+
  from w show ?thesis
    by (simp add: in_window_def adjust_price_def round2_mono)
qed

theorem adjust_price_in_rounded_window_witness:
  "fle (Fin 0) (competitor_price \<lparr>demand = Fin (1 / 2), competitor_price = Fin (641 / 8), trend = ''stable''\<rparr>) \<and>
   fle (round2 (lower_bound \<lparr>demand = Fin (1 / 2), competitor_price = Fin (641 / 8), trend = ''stable''\<rparr>))
       (adjust_price (Fin 100) \<lparr>demand = Fin (1 / 2), competitor_price = Fin (641 / 8), trend = ''stable''\<rparr>) \<and>
   fle (adjust_price (Fin 100) \<lparr>demand = Fin (1 / 2), competitor_price = Fin (641 / 8), trend = ''stable''\<rparr>)
       (round2 (upper_bound \<lparr>demand = Fin (1 / 2), competitor_price = Fin (641 / 8), trend = ''stable''\<rparr>))"
proof -
  let ?md = "\<lparr>demand = Fin (1 / 2), competitor_price = Fin (641 / 8), trend = ''stable''\<rparr>"
  have h: "fle (Fin 0) (competitor_price ?md)" by simp
  from adjust_price_in_rounded_window [OF h, of "Fin 100"] h show ?thesis by blast
qed

text \<open>
  C6. With demand 1.0 and competitor price 1000, for every price at which neither call
  clamps, the result on a rising trend is strictly greater than the result on a falling
  trend.
\<close>

theorem rising_above_falling:
  assumes "\<not> clamps p \<lparr>demand = Fin 1, competitor_price = Fin 1000, trend = ''rising''\<rparr>"
    and "\<not> clamps p \<lparr>demand = Fin 1, competitor_price = Fin 1000, trend = ''falling''\<rparr>"
  shows "flt (adjust_price p \<lparr>demand = Fin 1, competitor_price = Fin 1000, trend = ''falling''\<rparr>)
             (adjust_price p \<lparr>demand = Fin 1, competitor_price = Fin 1000, trend = ''rising''\<rparr>)"
proof -
  let ?a = "8106479329266893 / 9007199254740992 :: rat"
  let ?b = "2476979795053773 / 2251799813685248 :: rat"
  let ?q = "fmul p (Fin 1)"
  let ?vr = "fmul ?q lit_1_1"
  let ?vf = "fmul ?q lit_0_9"
  have w: "fle (Fin 900) (Fin 1100)" by simp
  from assms(1) have "pymax (Fin 900) (pymin ?vr (Fin 1100)) = ?vr"
    by (simp add: clamps_def clamped_price_def trend_price_def lower_bound_def upper_bound_def
        fmul_1000_evals)
  note r = no_clamp_in_window [OF w this]
  from assms(2) have "pymax (Fin 900) (pymin ?vf (Fin 1100)) = ?vf"
    by (simp add: clamps_def clamped_price_def trend_price_def lower_bound_def upper_bound_def
        fmul_1000_evals)
  note f = no_clamp_in_window [OF w this]
  obtain y where q: "?q = Fin y"
    using f by (cases ?q) (simp_all add: lit_0_9_eval)
  have vr: "?vr = fl (y * ?b)" and vf: "?vf = fl (y * ?a)"
    by (simp_all add: q lit_0_9_eval lit_1_1_eval)
  have "899 \<le> y * ?a"
    using f(1) unfolding vf by (rule fl_ge_imp) (simp_all add: fl_int_evals)
  then have "1098 \<le> y * ?b" by simp
  then have "fle (fl 1098) (fl (y * ?b))" by (rule fl_mono)
  then have "fle (round2 (Fin 1098)) (round2 ?vr)"
    unfolding vr fl_int_evals by (rule round2_mono)
  then have hi: "fle (Fin 1098) (round2 ?vr)" by (simp only: round2_evals)
  have "y * ?b \<le> 1101"
    using r(2) unfolding vr by (rule fl_le_imp) (simp_all add: fl_int_evals)
  then have "y * ?a \<le> 901" by simp
  then have "fle (fl (y * ?a)) (fl 901)" by (rule fl_mono)
  then have "fle (round2 ?vf) (round2 (Fin 901))"
    unfolding vf fl_int_evals by (rule round2_mono)
  then have lo: "fle (round2 ?vf) (Fin 901)" by (simp only: round2_evals)
  have "flt (round2 ?vf) (round2 ?vr)"
    using lo _ hi by (rule fle_flt_trans) simp
  moreover have "adjust_price p \<lparr>demand = Fin 1, competitor_price = Fin 1000, trend = ''rising''\<rparr>
      = round2 ?vr"
    using assms(1) by (simp add: adjust_price_def clamps_def trend_price_def)
  moreover have "adjust_price p \<lparr>demand = Fin 1, competitor_price = Fin 1000, trend = ''falling''\<rparr>
      = round2 ?vf"
    using assms(2) by (simp add: adjust_price_def clamps_def trend_price_def)
  ultimately show ?thesis by simp
qed

theorem rising_above_falling_witness:
  "\<not> clamps (Fin 1000) \<lparr>demand = Fin 1, competitor_price = Fin 1000, trend = ''rising''\<rparr> \<and>
   \<not> clamps (Fin 1000) \<lparr>demand = Fin 1, competitor_price = Fin 1000, trend = ''falling''\<rparr> \<and>
   adjust_price (Fin 1000) \<lparr>demand = Fin 1, competitor_price = Fin 1000, trend = ''rising''\<rparr> = Fin 1100 \<and>
   adjust_price (Fin 1000) \<lparr>demand = Fin 1, competitor_price = Fin 1000, trend = ''falling''\<rparr> = Fin 900 \<and>
   flt (adjust_price (Fin 1000) \<lparr>demand = Fin 1, competitor_price = Fin 1000, trend = ''falling''\<rparr>)
       (adjust_price (Fin 1000) \<lparr>demand = Fin 1, competitor_price = Fin 1000, trend = ''rising''\<rparr>)"
proof -
  let ?r = "\<lparr>demand = Fin 1, competitor_price = Fin 1000, trend = ''rising''\<rparr>"
  let ?f = "\<lparr>demand = Fin 1, competitor_price = Fin 1000, trend = ''falling''\<rparr>"
  have cr: "clamped_price (Fin 1000) ?r = Fin 1100" and tr: "trend_price (Fin 1000) ?r = Fin 1100"
    and cf: "clamped_price (Fin 1000) ?f = Fin 900" and tf: "trend_price (Fin 1000) ?f = Fin 900"
    by (simp_all add: clamped_price_def trend_price_def lower_bound_def upper_bound_def
        fl_int_evals fmul_1000_evals pymax_def pymin_def)
  have h1: "\<not> clamps (Fin 1000) ?r" and h2: "\<not> clamps (Fin 1000) ?f"
    by (simp_all add: clamps_def cr tr cf tf)
  have "adjust_price (Fin 1000) ?r = Fin 1100" "adjust_price (Fin 1000) ?f = Fin 900"
    by (simp_all only: adjust_price_def cr cf round2_evals)
  with rising_above_falling [OF h1 h2] h1 h2 show ?thesis by simp
qed

text \<open>
  C7. For every current price and every snapshot whose competitor price is strictly
  positive, the result of \<open>adjust_price\<close> is not below 0 (and so is not NaN).
\<close>

theorem adjust_price_nonneg:
  assumes "flt (Fin 0) (competitor_price md)"
  shows "fle (Fin 0) (adjust_price current_price md)"
proof -
  have lo: "fle (Fin 0) (lower_bound md)"
    unfolding lower_bound_def using assms by (rule lower_bound_nonneg)
  then have "lower_bound md \<noteq> NaN" by (simp add: fle_not_NaN)
  then have "fle (lower_bound md) (clamped_price current_price md)"
    unfolding clamped_price_def by (rule pymax_ge)
  with lo have "fle (Fin 0) (clamped_price current_price md)" by (rule fle_trans)
  then have "fle (round2 (Fin 0)) (round2 (clamped_price current_price md))" by (rule round2_mono)
  then show ?thesis by (simp only: adjust_price_def round2_evals)
qed

theorem adjust_price_nonneg_witness:
  "flt (Fin 0) (competitor_price \<lparr>demand = Fin (1 / 2), competitor_price = Fin (641 / 8), trend = ''stable''\<rparr>) \<and>
   fle (Fin 0) (adjust_price (Fin 100) \<lparr>demand = Fin (1 / 2), competitor_price = Fin (641 / 8), trend = ''stable''\<rparr>)"
proof -
  let ?md = "\<lparr>demand = Fin (1 / 2), competitor_price = Fin (641 / 8), trend = ''stable''\<rparr>"
  have h: "flt (Fin 0) (competitor_price ?md)" by simp
  from adjust_price_nonneg [OF h, of "Fin 100"] h show ?thesis by simp
qed


section \<open>Properties of the webhook\<close>

subsection \<open>Failures and successes\<close>

lemma try_store_unchanged:
  "market_update_try req e db = (Inl x, db') \<Longrightarrow> db' = db"
  by (auto simp: market_update_try_def split: if_splits option.splits sum.splits bool.splits prod.splits)

lemma webhook_failure_cases:
  assumes "market_update_webhook req e db = (Inl x, db')"
  shows "(\<exists>y. market_update_try req e db = (Inl y, db')) \<and>
         (\<exists>c d. x = HTTPException c d)"
  using assms
  by (auto simp: market_update_webhook_def split: prod.splits sum.splits exn.splits)

lemma webhook_store_unchanged:
  assumes "market_update_webhook req e db = (Inl x, db')"
  shows "db' = db"
  using webhook_failure_cases [OF assms] try_store_unchanged by blast

lemma try_returns_cases:
  assumes "market_update_try req e db = (Inr resp, db')"
  shows "\<exists>kvs k r. contains_str (content_type_header req) ''application/json'' \<and>
           json_body req = Some (PDict kvs) \<and> map_of kvs ''product_id'' = Some (PStr k) \<and>
           db k = Some r \<and> (resp, db') = update_price k r e db"
proof -
  from assms have ct: "contains_str (content_type_header req) ''application/json''"
    by (auto simp: market_update_try_def split: if_splits)
  from assms ct obtain data where data: "json_body req = Some data"
    by (cases "json_body req") (auto simp: market_update_try_def)
  from assms ct data have mf: "missing_field data = Inr False"
    by (auto simp: market_update_try_def split: sum.splits bool.splits)
  from assms ct data mf obtain pid where pid: "py_get data ''product_id'' = Inr pid"
    by (auto simp: market_update_try_def split: sum.splits)
  then obtain kvs where kvs: "data = PDict kvs"
    by (cases data) simp_all
  from mf kvs have "map_of kvs ''product_id'' \<noteq> None"
    by (auto simp: missing_field_def split: if_splits)
  with pid kvs have v: "map_of kvs ''product_id'' = Some pid" by auto
  from assms ct data mf pid have ins: "in_store pid db = Inr True"
    by (auto simp: market_update_try_def split: sum.splits bool.splits)
  then obtain k where k: "pid = PStr k" and "db k \<noteq> None"
    by (cases pid) (auto simp: in_store_def split: if_splits)
  then obtain r where r: "db k = Some r" by auto
  from assms ct data mf pid ins k r have "(resp, db') = update_price k r e db"
    by (auto simp: market_update_try_def split: prod.splits)
  with ct data kvs v k r show ?thesis by blast
qed

lemma webhook_returns_cases:
  assumes "market_update_webhook req e db = (Inr resp, db')"
  shows "\<exists>kvs k r. contains_str (content_type_header req) ''application/json'' \<and>
           json_body req = Some (PDict kvs) \<and> map_of kvs ''product_id'' = Some (PStr k) \<and>
           db k = Some r \<and> (resp, db') = update_price k r e db"
proof -
  from assms have "market_update_try req e db = (Inr resp, db')"
    by (auto simp: market_update_webhook_def split: prod.splits sum.splits exn.splits)
  then show ?thesis by (rule try_returns_cases)
qed

lemma try_returns:
  assumes "contains_str (content_type_header req) ''application/json''"
    and "json_body req = Some (PDict kvs)"
    and "map_of kvs ''product_id'' = Some (PStr k)"
    and "db k = Some r"
  shows "market_update_try req e db = (Inr (fst (update_price k r e db)), snd (update_price k r e db))"
proof -
  from assms(3) have "kvs \<noteq> []" by auto
  with assms(3) have "missing_field (PDict kvs) = Inr False"
    by (simp add: missing_field_def)
  with assms show ?thesis
    by (simp add: market_update_try_def in_store_def split: prod.splits)
qed

lemma try_content_type:
  assumes "\<not> contains_str (content_type_header req) ''application/json''"
  shows "market_update_try req e db =
    (Inl (HTTPException 400 (Text ''Content-Type must be application/json'')), db)"
  using assms by (simp add: market_update_try_def)

lemma try_malformed:
  assumes "contains_str (content_type_header req) ''application/json''" "json_body req = None"
  shows "market_update_try req e db = (Inl (HTTPException 400 (Text ''Invalid JSON format'')), db)"
  using assms by (simp add: market_update_try_def)

lemma try_missing:
  assumes "contains_str (content_type_header req) ''application/json''" "json_body req = Some data"
    and "\<not> truthy data \<or> py_in ''product_id'' data = Inr False"
  shows "market_update_try req e db =
    (Inl (HTTPException 400 (Text ''Missing required field: product_id'')), db)"
proof -
  from assms(3) have "missing_field data = Inr True"
    by (auto simp: missing_field_def)
  with assms(1,2) show ?thesis by (simp add: market_update_try_def)
qed

lemma try_not_found:
  assumes "contains_str (content_type_header req) ''application/json''"
    and "json_body req = Some (PDict kvs)"
    and "map_of kvs ''product_id'' = Some v" "hashable v" "\<not> is_key db v"
  shows "market_update_try req e db = (Inl (HTTPException 404 (ProductNotFound v)), db)"
proof -
  from assms(3) have "kvs \<noteq> []" by auto
  with assms(3) have "missing_field (PDict kvs) = Inr False"
    by (simp add: missing_field_def)
  with assms show ?thesis
    by (simp add: market_update_try_def in_store_def)
qed

lemma webhook_of_try_http:
  "market_update_try req e db = (Inl (HTTPException c d), db') \<Longrightarrow>
   market_update_webhook req e db = (Inl (HTTPException c d), db')"
  by (simp add: market_update_webhook_def)

lemma webhook_of_try_other:
  "market_update_try req e db = (Inl y, db') \<Longrightarrow> \<not> is_http y \<Longrightarrow>
   market_update_webhook req e db = (Inl (HTTPException 500 (Text ''Internal server error'')), db)"
  using try_store_unchanged [of req e db y db']
  by (cases y) (simp_all add: market_update_webhook_def)

lemma py_in_not_http: "py_in k v \<noteq> Inl (HTTPException c d)"
  by (cases v) simp_all

lemma py_get_not_http: "py_get v k \<noteq> Inl (HTTPException c d)"
  by (cases v) simp_all

lemma db_item_not_http: "db_item db v \<noteq> Inl (HTTPException c d)"
  by (cases v) (simp_all split: option.splits)

lemma try_statuses:
  assumes "market_update_try req e db = (Inl (HTTPException c d), db')"
  shows "c = 400 \<or> c = 404"
  using assms
  by (auto simp: market_update_try_def missing_field_def in_store_def
      py_in_not_http py_get_not_http db_item_not_http
      split: if_splits option.splits sum.splits bool.splits prod.splits)

lemma webhook_statuses:
  assumes "market_update_webhook req e db = (Inl x, db')"
  shows "\<exists>c d. x = HTTPException c d \<and> (c = 400 \<or> c = 404 \<or> c = 500)"
proof -
  obtain res db'' where t: "market_update_try req e db = (res, db'')"
    by (cases "market_update_try req e db")
  show ?thesis
  proof (cases res)
    case (Inl y)
    show ?thesis
    proof (cases y)
      case (HTTPException c d)
      with t Inl try_statuses [of req e db c d db''] assms show ?thesis
        by (auto simp: market_update_webhook_def)
    qed (use t Inl assms in \<open>auto simp: market_update_webhook_def\<close>)
  next
    case (Inr r)
    with t assms show ?thesis by (simp add: market_update_webhook_def)
  qed
qed

subsection \<open>The keys of the store\<close>

lemma handle_dom: "dom (handle c db) = dom db"
proof (cases c)
  case (MarketUpdate req e)
  show ?thesis
  proof (cases "market_update_webhook req e db")
    case (Pair res db')
    show ?thesis
    proof (cases res)
      case (Inl x)
      with Pair have "db' = db" by (auto dest: webhook_store_unchanged)
      with Pair MarketUpdate show ?thesis by simp
    next
      case (Inr resp)
      with Pair webhook_returns_cases [of req e db resp db']
      obtain k r where "db k = Some r" "(resp, db') = update_price k r e db" by blast
      then have "dom db' = dom db" by (auto simp: update_price_def Let_def)
      with Pair MarketUpdate show ?thesis by simp
    qed
  qed
qed (simp_all add: get_pricing_def get_all_pricing_def health_check_def split: option.splits)

lemma run_dom: "dom (run cs db) = dom db"
  by (induction cs arbitrary: db) (simp_all add: handle_dom)

subsection \<open>The webhook at the example inputs\<close>

lemma adjust_price_example: "adjust_price (Fin 100) example_snapshot = Fin 110"
  by (simp add: adjust_price_def clamped_price_def trend_price_def lower_bound_def upper_bound_def
      fl_int_evals fmul_100_evals pymax_def pymin_def round2_eval_110 del: round2.simps)

lemma isoformat_example: "isoformat example_time = ''2025-03-04T05:06:07.000008''"
  by code_simp

lemma contains_str_examples:
  "contains_str ''application/json'' ''application/json''"
  "contains_str ''application/json; charset=utf-8'' ''application/json''"
  "\<not> contains_str ''text/plain'' ''application/json''"
  by simp_all

lemma webhook_example:
  "market_update_webhook (json_request (PDict [(''product_id'', PStr ''product1'')])) example_env
      (pricing_db startup_time startup_time)
    = (Inr \<lparr>product_id = ''product1'', old_price = Fin 100, new_price = Fin 110,
             market_data = example_snapshot, timestamp = ''2025-03-04T05:06:07.000008''\<rparr>,
       (pricing_db startup_time startup_time)
         (''product1'' \<mapsto> \<lparr>price = Fin 110, last_updated = example_time\<rparr>))"
  using try_returns [of "json_request (PDict [(''product_id'', PStr ''product1'')])"
      "[(''product_id'', PStr ''product1'')]" "''product1''" "pricing_db startup_time startup_time"
      "\<lparr>price = Fin 100, last_updated = startup_time\<rparr>" example_env]
  by (simp add: market_update_webhook_def update_price_def Let_def content_type_header_def
      pricing_db_def adjust_price_example isoformat_example)

subsection \<open>The validation chain where no check raises\<close>

text \<open>
  The checks are applied in their order, and every failure leaves the store as it was:
  a \<open>content-type\<close> header that does not contain \<open>application/json\<close> gives 400,
  whatever the body; otherwise a body that does not parse gives 400; otherwise a parsed
  body that is false, or that is an object, array or string in which \<open>product_id\<close> does
  not occur, gives 400; otherwise a JSON object whose \<open>product_id\<close> is hashable and is not
  a key of the store gives 404; an exception other than \<open>HTTPException\<close> gives 500; and
  every failure is an \<open>HTTPException\<close> of status 400, 404 or 500.
\<close>

lemma validation_chain:
  "(\<not> contains_str (content_type_header req) ''application/json'' \<longrightarrow>
      market_update_webhook req e db =
        (Inl (HTTPException 400 (Text ''Content-Type must be application/json'')), db)) \<and>
   (contains_str (content_type_header req) ''application/json'' \<and> json_body req = None \<longrightarrow>
      market_update_webhook req e db =
        (Inl (HTTPException 400 (Text ''Invalid JSON format'')), db)) \<and>
   (contains_str (content_type_header req) ''application/json'' \<and> json_body req = Some data \<and>
    (\<not> truthy data \<or> py_in ''product_id'' data = Inr False) \<longrightarrow>
      market_update_webhook req e db =
        (Inl (HTTPException 400 (Text ''Missing required field: product_id'')), db)) \<and>
   (contains_str (content_type_header req) ''application/json'' \<and>
    json_body req = Some (PDict kvs) \<and> map_of kvs ''product_id'' = Some v \<and>
    hashable v \<and> \<not> is_key db v \<longrightarrow>
      market_update_webhook req e db = (Inl (HTTPException 404 (ProductNotFound v)), db)) \<and>
   (market_update_try req e db = (Inl y, db'') \<and> \<not> is_http y \<longrightarrow>
      market_update_webhook req e db =
        (Inl (HTTPException 500 (Text ''Internal server error'')), db)) \<and>
   (market_update_webhook req e db = (Inl x, db') \<longrightarrow>
      db' = db \<and> (\<exists>c d. x = HTTPException c d \<and> (c = 400 \<or> c = 404 \<or> c = 500)))"
  using try_content_type [of req e db] try_malformed [of req e db] try_missing [of req data e db]
    try_not_found [of req kvs v db e] webhook_of_try_other [of req e db y db'']
    webhook_store_unchanged [of req e db x db'] webhook_statuses [of req e db x db']
  by (auto simp: webhook_of_try_http)

lemma validation_chain_examples:
  "\<not> contains_str (content_type_header
        \<lparr>content_type = Some ''text/plain'',
          json_body = Some (PDict [(''product_id'', PStr ''product1'')])\<rparr>) ''application/json'' \<and>
   market_update_webhook
        \<lparr>content_type = Some ''text/plain'',
          json_body = Some (PDict [(''product_id'', PStr ''product1'')])\<rparr>
        example_env (pricing_db example_time example_time)
     = (Inl (HTTPException 400 (Text ''Content-Type must be application/json'')),
        pricing_db example_time example_time) \<and>
   contains_str (content_type_header
        \<lparr>content_type = Some ''application/json; charset=utf-8'', json_body = None\<rparr>)
      ''application/json'' \<and>
   market_update_webhook \<lparr>content_type = Some ''application/json; charset=utf-8'', json_body = None\<rparr>
        example_env (pricing_db example_time example_time)
     = (Inl (HTTPException 400 (Text ''Invalid JSON format'')), pricing_db example_time example_time) \<and>
   \<not> truthy (PDict []) \<and>
   market_update_webhook (json_request (PDict [])) example_env (pricing_db example_time example_time)
     = (Inl (HTTPException 400 (Text ''Missing required field: product_id'')),
        pricing_db example_time example_time) \<and>
   hashable (PStr ''unknown'') \<and> \<not> is_key (pricing_db example_time example_time) (PStr ''unknown'') \<and>
   market_update_webhook (json_request (PDict [(''product_id'', PStr ''unknown'')]))
        example_env (pricing_db example_time example_time)
     = (Inl (HTTPException 404 (ProductNotFound (PStr ''unknown''))),
        pricing_db example_time example_time) \<and>
   market_update_try (json_request (PBool True)) example_env (pricing_db example_time example_time)
     = (Inl TypeError, pricing_db example_time example_time) \<and> \<not> is_http TypeError \<and>
   market_update_webhook (json_request (PBool True)) example_env (pricing_db example_time example_time)
     = (Inl (HTTPException 500 (Text ''Internal server error'')), pricing_db example_time example_time)"
proof -
  let ?db = "pricing_db example_time example_time"
  let ?r1 = "\<lparr>content_type = Some ''text/plain'',
          json_body = Some (PDict [(''product_id'', PStr ''product1'')])\<rparr>"
  let ?r2 = "\<lparr>content_type = Some ''application/json; charset=utf-8'', json_body = None\<rparr>"
  have h1: "\<not> contains_str (content_type_header ?r1) ''application/json''"
    by (simp add: content_type_header_def)
  have h2: "contains_str (content_type_header ?r2) ''application/json'' \<and> json_body ?r2 = None"
    by (simp add: content_type_header_def)
  have h3: "contains_str (content_type_header (json_request (PDict []))) ''application/json'' \<and>
    json_body (json_request (PDict [])) = Some (PDict []) \<and>
    (\<not> truthy (PDict []) \<or> py_in ''product_id'' (PDict []) = Inr False)"
    by (simp add: content_type_header_def)
  have h4: "contains_str (content_type_header (json_request (PDict [(''product_id'', PStr ''unknown'')])))
      ''application/json'' \<and>
    json_body (json_request (PDict [(''product_id'', PStr ''unknown'')]))
      = Some (PDict [(''product_id'', PStr ''unknown'')]) \<and>
    map_of [(''product_id'', PStr ''unknown'')] ''product_id'' = Some (PStr ''unknown'') \<and>
    hashable (PStr ''unknown'') \<and> \<not> is_key ?db (PStr ''unknown'')"
    by (simp add: content_type_header_def pricing_db_def)
  have h5: "market_update_try (json_request (PBool True)) example_env ?db = (Inl TypeError, ?db) \<and>
    \<not> is_http TypeError"
    by (simp add: market_update_try_def content_type_header_def missing_field_def)
  from validation_chain [of ?r1 example_env ?db] h1
  have c1: "market_update_webhook ?r1 example_env ?db
     = (Inl (HTTPException 400 (Text ''Content-Type must be application/json'')), ?db)"
    by blast
  from validation_chain [of ?r2 example_env ?db] h2
  have c2: "market_update_webhook ?r2 example_env ?db
     = (Inl (HTTPException 400 (Text ''Invalid JSON format'')), ?db)"
    by blast
  from validation_chain [of "json_request (PDict [])" example_env ?db "PDict []"] h3
  have c3: "market_update_webhook (json_request (PDict [])) example_env ?db
     = (Inl (HTTPException 400 (Text ''Missing required field: product_id'')), ?db)"
    by blast
  from validation_chain [of "json_request (PDict [(''product_id'', PStr ''unknown'')])" example_env ?db
      _ "[(''product_id'', PStr ''unknown'')]" "PStr ''unknown''"] h4
  have c4: "market_update_webhook (json_request (PDict [(''product_id'', PStr ''unknown'')])) example_env ?db
     = (Inl (HTTPException 404 (ProductNotFound (PStr ''unknown''))), ?db)"
    by blast
  from validation_chain [of "json_request (PBool True)" example_env ?db _ _ _ TypeError ?db] h5
  have c5: "market_update_webhook (json_request (PBool True)) example_env ?db
     = (Inl (HTTPException 500 (Text ''Internal server error'')), ?db)"
    by blast
  show ?thesis
    unfolding c1 c2 c3 c4 c5 using h1 h2 h3 h4 h5 by simp
qed

section \<open>The service: claims\<close>

text \<open>
  C3, at two bodies sent with the header \<open>application/json\<close>.
  The body \<open>{"product_id": ["product1"]}\<close> passes the first three checks and its
  \<open>product_id\<close> is not a key of the store; the test \<open>product_id not in pricing_db\<close>
  raises \<open>TypeError\<close> on the unhashable list, and the handler answers 500, not 404.
  The body \<open>true\<close> parses and has no key \<open>product_id\<close>; \<open>"product_id" not in True\<close>
  raises \<open>TypeError\<close>, and the handler answers 500, not 400. The store is left as it was.
\<close>

theorem unvalidated_body_internal_error:
  "contains_str (content_type_header (json_request (PDict [(''product_id'', PList [PStr ''product1''])])))
      ''application/json'' \<and>
   truthy (PDict [(''product_id'', PList [PStr ''product1''])]) \<and>
   has_key (PDict [(''product_id'', PList [PStr ''product1''])]) ''product_id'' \<and>
   \<not> is_key (pricing_db example_time example_time) (PList [PStr ''product1'']) \<and>
   market_update_webhook (json_request (PDict [(''product_id'', PList [PStr ''product1''])]))
       example_env (pricing_db example_time example_time)
     = (Inl (HTTPException 500 (Text ''Internal server error'')), pricing_db example_time example_time) \<and>
   market_update_webhook (json_request (PDict [(''product_id'', PList [PStr ''product1''])]))
       example_env (pricing_db example_time example_time)
     \<noteq> (Inl (HTTPException 404 (ProductNotFound (PList [PStr ''product1'']))),
        pricing_db example_time example_time) \<and>
   contains_str (content_type_header (json_request (PBool True))) ''application/json'' \<and>
   json_body (json_request (PBool True)) = Some (PBool True) \<and>
   \<not> has_key (PBool True) ''product_id'' \<and>
   market_update_webhook (json_request (PBool True)) example_env (pricing_db example_time example_time)
     = (Inl (HTTPException 500 (Text ''Internal server error'')), pricing_db example_time example_time)"
  by (simp add: market_update_webhook_def market_update_try_def content_type_header_def
      missing_field_def in_store_def)

text \<open>
  C4. For every request that passes the four checks (the header contains
  \<open>application/json\<close>, the body parses to an object, whose \<open>product_id\<close> is a key of the
  store), the handler stores \<open>adjust_price\<close> of the old price and the generated snapshot
  as the new price of that product, with the time of the update, and returns the product
  id, the old price, the new price, the snapshot and the clock reading in ISO format.
\<close>

theorem webhook_success:
  assumes "contains_str (content_type_header req) ''application/json''"
    and "json_body req = Some (PDict kvs)"
    and "map_of kvs ''product_id'' = Some (PStr k)"
    and "db k = Some r"
  shows "market_update_webhook req e db =
    (Inr \<lparr>product_id = k, old_price = price r, new_price = adjust_price (price r) (market e),
          market_data = market e, timestamp = isoformat (now_response e)\<rparr>,
     db(k \<mapsto> \<lparr>price = adjust_price (price r) (market e), last_updated = now_update e\<rparr>))"
  using assms try_returns [of req kvs k db r e]
  by (cases r) (simp add: market_update_webhook_def update_price_def Let_def)

theorem webhook_success_witness:
  "contains_str (content_type_header (json_request (PDict [(''product_id'', PStr ''product1'')])))
      ''application/json'' \<and>
   pricing_db startup_time startup_time ''product1''
     = Some \<lparr>price = Fin 100, last_updated = startup_time\<rparr> \<and>
   market_update_webhook (json_request (PDict [(''product_id'', PStr ''product1'')])) example_env
      (pricing_db startup_time startup_time)
    = (Inr \<lparr>product_id = ''product1'', old_price = Fin 100, new_price = Fin 110,
             market_data = example_snapshot, timestamp = ''2025-03-04T05:06:07.000008''\<rparr>,
       (pricing_db startup_time startup_time)
         (''product1'' \<mapsto> \<lparr>price = Fin 110, last_updated = example_time\<rparr>))"
proof -
  let ?req = "json_request (PDict [(''product_id'', PStr ''product1'')])"
  let ?db = "pricing_db startup_time startup_time"
  have h1: "contains_str (content_type_header ?req) ''application/json''"
    by (simp add: content_type_header_def)
  have h2: "json_body ?req = Some (PDict [(''product_id'', PStr ''product1'')])" by simp
  have h3: "map_of [(''product_id'', PStr ''product1'')] ''product_id'' = Some (PStr ''product1'')"
    by simp
  have h4: "?db ''product1'' = Some \<lparr>price = Fin 100, last_updated = startup_time\<rparr>"
    by (simp add: pricing_db_def)
  from webhook_success [of ?req "[(''product_id'', PStr ''product1'')]" "''product1''" ?db
      "\<lparr>price = Fin 100, last_updated = startup_time\<rparr>" example_env, OF h1 h2 h3 h4]
  have "market_update_webhook ?req example_env ?db
    = (Inr \<lparr>product_id = ''product1'', old_price = Fin 100, new_price = Fin 110,
             market_data = example_snapshot, timestamp = ''2025-03-04T05:06:07.000008''\<rparr>,
       ?db(''product1'' \<mapsto> \<lparr>price = Fin 110, last_updated = example_time\<rparr>))"
    by (simp add: adjust_price_example isoformat_example)
  with h1 h4 show ?thesis by simp
qed

text \<open>
  C5, at the body \<open>5\<close>: the header contains \<open>application/json\<close>, the body parses, it
  does not contain the key \<open>product_id\<close>, and the handler answers 500, not 400:
  \<open>"product_id" not in 5\<close> raises \<open>TypeError\<close>.
\<close>

theorem scalar_body_internal_error:
  "contains_str (content_type_header (json_request (PInt 5))) ''application/json'' \<and>
   json_body (json_request (PInt 5)) = Some (PInt 5) \<and>
   \<not> has_key (PInt 5) ''product_id'' \<and>
   market_update_webhook (json_request (PInt 5)) example_env (pricing_db example_time example_time)
     = (Inl (HTTPException 500 (Text ''Internal server error'')), pricing_db example_time example_time)"
  by (simp add: market_update_webhook_def market_update_try_def content_type_header_def
      missing_field_def)

text \<open>
  C8. At startup the keys of the store are \<open>product1\<close> and \<open>product2\<close>, with the prices
  100.0 and 50.0; every exposed operation keeps the set of keys, and so does every sequence
  of them. Each key maps to one record of a price and a timestamp, by the type of the store.
\<close>

theorem store_keys_fixed:
  "dom (pricing_db t1 t2) = {''product1'', ''product2''} \<and>
   pricing_db t1 t2 ''product1'' = Some \<lparr>price = Fin 100, last_updated = t1\<rparr> \<and>
   pricing_db t1 t2 ''product2'' = Some \<lparr>price = Fin 50, last_updated = t2\<rparr> \<and>
   dom (handle c db) = dom db \<and>
   dom (run cs (pricing_db t1 t2)) = {''product1'', ''product2''}"
  by (auto simp: run_dom handle_dom pricing_db_def)

text \<open>
  C9. \<open>get_pricing\<close> leaves the store as it is, a second call returns what the first
  returned, and the result is the record of the key, or 404 when the store has no such key.
\<close>

theorem get_pricing_pure:
  "snd (get_pricing pid db) = db \<and>
   fst (get_pricing pid (snd (get_pricing pid db))) = fst (get_pricing pid db) \<and>
   fst (get_pricing pid db) =
     (case db pid of None \<Rightarrow> Inl (HTTPException 404 (ProductNotFound (PStr pid))) | Some r \<Rightarrow> Inr r)"
  by (simp add: get_pricing_def split: option.splits)

text \<open>
  C10. A successful call of the webhook changes the record of the product it names only:
  every other key maps to what it mapped to before, price and timestamp.
\<close>

theorem webhook_frame:
  assumes "market_update_webhook req e db = (Inr resp, db')" and "k \<noteq> product_id resp"
  shows "db' k = db k"
  using webhook_returns_cases [OF assms(1)] assms(2)
  by (auto simp: update_price_def Let_def)

theorem webhook_frame_witness:
  "market_update_webhook (json_request (PDict [(''product_id'', PStr ''product1'')])) example_env
      (pricing_db startup_time startup_time)
    = (Inr \<lparr>product_id = ''product1'', old_price = Fin 100, new_price = Fin 110,
             market_data = example_snapshot, timestamp = ''2025-03-04T05:06:07.000008''\<rparr>,
       (pricing_db startup_time startup_time)
         (''product1'' \<mapsto> \<lparr>price = Fin 110, last_updated = example_time\<rparr>)) \<and>
   ''product2'' \<noteq> ''product1'' \<and>
   ((pricing_db startup_time startup_time)
         (''product1'' \<mapsto> \<lparr>price = Fin 110, last_updated = example_time\<rparr>)) ''product2''
     = Some \<lparr>price = Fin 50, last_updated = startup_time\<rparr>"
proof -
  have h: "''product2'' \<noteq> product_id \<lparr>product_id = ''product1'', old_price = Fin 100, new_price = Fin 110,
             market_data = example_snapshot, timestamp = ''2025-03-04T05:06:07.000008''\<rparr>"
    by simp
  from webhook_frame [OF webhook_example h]
  have "((pricing_db startup_time startup_time)
         (''product1'' \<mapsto> \<lparr>price = Fin 110, last_updated = example_time\<rparr>)) ''product2''
     = pricing_db startup_time startup_time ''product2''" .
  then show ?thesis
    unfolding webhook_example by (simp add: pricing_db_def)
qed

end
